theory Spec2Isabelle
  imports Main "HOL-Library.FSet"
begin

section \<open>The word-selection engine of the Strands game\<close>

text \<open>
  The development embeds the game logic of the React component \<open>GameBoard\<close>
  (\<open>isAdjacent\<close>, \<open>pathToString\<close>, \<open>handleCellClick\<close>, \<open>checkForWord\<close>, the
  \<open>onClick\<close> guard of a grid cell and the reset effect), and the puzzle loading of
  \<open>GameContainer.handleGenerateGame\<close> with \<open>generateGame\<close> of the API service.

  Conventions of the embedding:
  \<^item> a JavaScript number holding a grid index is an \<open>int\<close>; its template-literal
    rendering \<open>${r}\<close> is the decimal numeral, with a leading minus sign below zero;
  \<^item> a JavaScript string is a \<open>string\<close>; \<open>toLowerCase\<close> is modelled on the code
    points 0 to 255, which a \<open>char\<close> holds;
  \<^item> a JavaScript \<open>Set\<close> is a finite set (\<open>fset\<close>): the code only adds, tests
    membership and reads the size;
  \<^item> the React state of a component is a record, a handler takes the state of the
    render it closes over and returns the state after its \<open>set...\<close> calls;
  \<^item> a \<open>TypeError\<close> thrown inside a handler is the \<open>Inl\<close> branch of a sum; the
    handler has then made no state update;
  \<^item> \<open>setTimeout\<close> registers a callback: the callbacks registered and not yet run
    are the list \<open>pendingTimeouts\<close>, kept beside the component state.
\<close>

subsection \<open>Types of the game (types/game.ts)\<close>

type_synonym Position = "int \<times> int"

record WordPlacement =
  word :: string
  path :: "Position list"

record PlacementInfo =
  spangramPlacement :: WordPlacement
  wordPlacements :: "WordPlacement list"

text \<open>
  \<open>Board\<close> is the object the API service returns. \<open>GameContainer\<close> hands its fields
  to \<open>GameBoard\<close> as the props \<open>board\<close> (the \<open>grid\<close>), \<open>words\<close>, \<open>spangram\<close>,
  \<open>placementInfo\<close> and \<open>theme\<close>; the functions of \<open>GameBoard\<close> below take the
  \<open>Board\<close> and read the props from it.
\<close>

record Board =
  grid :: "string list list"
  words :: "string list"
  spangram :: string
  theme :: string
  placementInfo :: PlacementInfo

subsection \<open>JavaScript primitives used by the component\<close>

datatype js_error = TypeError

text \<open>Decimal rendering of a number that holds an integer.\<close>

fun digits :: "nat \<Rightarrow> string" where
  "digits n = (if n < 10 then [char_of (48 + n)]
               else digits (n div 10) @ [char_of (48 + n mod 10)])"

declare digits.simps [simp del]

definition numberToString :: "int \<Rightarrow> string" where
  "numberToString i = (if i < 0 then CHR ''-'' # digits (nat (- i)) else digits (nat i))"

text \<open>\<open>Array.prototype.join\<close> on an array of strings.\<close>

fun join :: "string \<Rightarrow> string list \<Rightarrow> string" where
  "join sep [] = []"
| "join sep [x] = x"
| "join sep (x # y # ys) = x @ sep @ join sep (y # ys)"

text \<open>\<open>String.prototype.split\<close> with a separator of one character.\<close>

fun split :: "char \<Rightarrow> string \<Rightarrow> string list" where
  "split c [] = [[]]"
| "split c (x # xs) =
     (if x = c then [] # split c xs
      else (case split c xs of [] \<Rightarrow> [[x]] | w # ws \<Rightarrow> (x # w) # ws))"

text \<open>\<open>String.prototype.toLowerCase\<close> on the code points 0 to 255: the capital letters
  A to Z, and the capital letters of Latin-1 (192 to 222 without the sign 215), move
  up by 32.\<close>

definition lowerChar :: "char \<Rightarrow> char" where
  "lowerChar c =
     (let n = (of_char c :: nat)
      in if (65 \<le> n \<and> n \<le> 90) \<or> (192 \<le> n \<and> n \<le> 214) \<or> (216 \<le> n \<and> n \<le> 222)
         then char_of (n + 32) else c)"

definition toLowerCase :: "string \<Rightarrow> string" where
  "toLowerCase s = map lowerChar s"

text \<open>Reading \<open>xs[i]\<close>: \<open>undefined\<close> (here \<open>None\<close>) outside the array.\<close>

definition index :: "'a list \<Rightarrow> int \<Rightarrow> 'a option" where
  "index xs i = (if 0 \<le> i \<and> nat i < length xs then Some (xs ! nat i) else None)"

subsection \<open>State of the GameBoard component\<close>

datatype MessageType = success | info

record Message =
  msgText :: string
  msgType :: "MessageType option"

record GameBoardState =
  selectedCells :: "Position list"
  foundWords :: "string fset"
  foundPaths :: "string fset"
  message :: Message
  pendingTimeouts :: "(nat \<times> Message) list"

text \<open>The initial values of the \<open>useState\<close> calls; no timeout is registered.\<close>

definition initialState :: GameBoardState where
  "initialState =
     \<lparr>selectedCells = [], foundWords = {||}, foundPaths = {||},
      message = \<lparr>msgText = [], msgType = None\<rparr>, pendingTimeouts = []\<rparr>"

subsection \<open>Helpers of GameBoard\<close>

definition isAdjacent :: "Position \<Rightarrow> Position \<Rightarrow> bool" where
  "isAdjacent pos1 pos2 =
     (case pos1 of (row1, col1) \<Rightarrow> case pos2 of (row2, col2) \<Rightarrow>
        let rowDiff = \<bar>row1 - row2\<bar>; colDiff = \<bar>col1 - col2\<bar>
        in rowDiff \<le> 1 \<and> colDiff \<le> 1 \<and> \<not> (rowDiff = 0 \<and> colDiff = 0))"

text \<open>The key \<open>`${r},${c}`\<close> under which a cell is stored in \<open>foundPaths\<close>.\<close>

definition cellKey :: "Position \<Rightarrow> string" where
  "cellKey p = (case p of (r, c) \<Rightarrow> numberToString r @ '','' @ numberToString c)"

definition pathToString :: "Position list \<Rightarrow> string" where
  "pathToString p = join ''|'' (map cellKey p)"

subsection \<open>checkForWord\<close>

text \<open>\<open>board[row][col]\<close>: a missing row makes the second read throw; a missing column
  gives \<open>undefined\<close>, which \<open>join('')\<close> renders as the empty string.\<close>

definition cellLetter :: "string list list \<Rightarrow> Position \<Rightarrow> js_error + string" where
  "cellLetter g p =
     (case p of (row, col) \<Rightarrow>
        (case index g row of
           None \<Rightarrow> Inl TypeError
         | Some r \<Rightarrow> (case index r col of None \<Rightarrow> Inr [] | Some s \<Rightarrow> Inr s)))"

text \<open>\<open>cells.map(([row, col]) => board[row][col]).join('')\<close>\<close>

fun selectedWord :: "string list list \<Rightarrow> Position list \<Rightarrow> js_error + string" where
  "selectedWord g [] = Inr []"
| "selectedWord g (p # ps) =
     (case cellLetter g p of
        Inl e \<Rightarrow> Inl e
      | Inr s \<Rightarrow> (case selectedWord g ps of Inl e \<Rightarrow> Inl e | Inr t \<Rightarrow> Inr (s @ t)))"

definition allPlacements :: "Board \<Rightarrow> WordPlacement list" where
  "allPlacements b =
     \<lparr>word = spangram b, path = path (spangramPlacement (placementInfo b))\<rparr>
     # map (\<lambda>w. \<lparr>word = word w, path = path w\<rparr>) (wordPlacements (placementInfo b))"

text \<open>The predicate handed to \<open>allPlacements.find\<close>.\<close>

definition placementMatches :: "string \<Rightarrow> string \<Rightarrow> WordPlacement \<Rightarrow> bool" where
  "placementMatches selWord pathStr pl =
     (let correctPathStr = pathToString (path pl)
      in toLowerCase (word pl) = toLowerCase selWord \<and>
         (pathStr = correctPathStr \<or>
          pathStr = join ''|'' (rev (split CHR ''|'' correctPathStr))))"

definition foundPlacement :: "Board \<Rightarrow> Position list \<Rightarrow> string \<Rightarrow> WordPlacement option" where
  "foundPlacement b cells selWord =
     find (placementMatches selWord (pathToString cells)) (allPlacements b)"

definition successMessage :: "Board \<Rightarrow> string \<Rightarrow> Message" where
  "successMessage b w =
     \<lparr>msgText = (if w = spangram b then ''Congratulations! You found the spangram!''
                 else ''You found '' @ [CHR 0x22] @ w @ [CHR 0x22] @ ''!''),
      msgType = Some success\<rparr>"

definition allFoundMessage :: Message where
  "allFoundMessage =
     \<lparr>msgText = ''Congratulations! You found all the words!'', msgType = Some success\<rparr>"

definition tryAgainMessage :: Message where
  "tryAgainMessage = \<lparr>msgText = ''Try again!'', msgType = Some info\<rparr>"

text \<open>\<open>cells.forEach(([r, c]) => newFoundPaths.add(`${r},${c}`))\<close>\<close>

definition addCells :: "string fset \<Rightarrow> Position list \<Rightarrow> string fset" where
  "addCells fp cells = foldl (\<lambda>acc p. finsert (cellKey p) acc) fp cells"

definition markFound :: "Board \<Rightarrow> GameBoardState \<Rightarrow> Position list \<Rightarrow> string \<Rightarrow> GameBoardState" where
  "markFound b s cells w =
     (let newFoundWords = finsert w (foundWords s);
          newFoundPaths = addCells (foundPaths s) cells;
          s1 = s\<lparr>foundWords := newFoundWords, foundPaths := newFoundPaths,
                 message := successMessage b w\<rparr>
      in if fcard newFoundWords = length (allPlacements b)
         then s1\<lparr>pendingTimeouts := pendingTimeouts s1 @ [(1000, allFoundMessage)]\<rparr>
         else s1)"

definition checkForWord :: "Board \<Rightarrow> GameBoardState \<Rightarrow> Position list \<Rightarrow> js_error + GameBoardState" where
  "checkForWord b s cells =
     (case selectedWord (grid b) cells of
        Inl e \<Rightarrow> Inl e
      | Inr selWord \<Rightarrow>
          (let s' = (case foundPlacement b cells selWord of
                       Some pl \<Rightarrow>
                         if word pl |\<notin>| foundWords s then markFound b s cells (word pl)
                         else if length cells > 0 then s\<lparr>message := tryAgainMessage\<rparr>
                         else s
                     | None \<Rightarrow>
                         if length cells > 0 then s\<lparr>message := tryAgainMessage\<rparr>
                         else s)
           in Inr (s'\<lparr>selectedCells := []\<rparr>)))"

subsection \<open>handleCellClick and the click handler of a cell\<close>

definition handleCellClick :: "Board \<Rightarrow> GameBoardState \<Rightarrow> Position \<Rightarrow> js_error + GameBoardState" where
  "handleCellClick b s clickedPos =
     (if length (selectedCells s) > 0 \<and> last (selectedCells s) = clickedPos
      then checkForWord b s (selectedCells s)
      else if length (selectedCells s) > 0 \<and>
              (\<not> isAdjacent (last (selectedCells s)) clickedPos \<or>
               cellKey clickedPos |\<in>| foundPaths s)
      then Inr (s\<lparr>selectedCells := []\<rparr>)
      else Inr (s\<lparr>selectedCells := selectedCells s @ [clickedPos]\<rparr>))"

text \<open>\<open>onClick={() => !foundPaths.has(`${rowIndex},${colIndex}`) && handleCellClick(rowIndex, colIndex)}\<close>:
  the entry point of every cell-click gesture, the \<open>selectCell\<close> of the specification.\<close>

definition onClick :: "Board \<Rightarrow> GameBoardState \<Rightarrow> Position \<Rightarrow> js_error + GameBoardState" where
  "onClick b s p =
     (if cellKey p |\<in>| foundPaths s then Inr s else handleCellClick b s p)"

text \<open>A run of click gestures. A handler that throws has made no \<open>set...\<close> call, so the
  next gesture finds the state as it was.\<close>

fun clicks :: "Board \<Rightarrow> GameBoardState \<Rightarrow> Position list \<Rightarrow> GameBoardState" where
  "clicks b s [] = s"
| "clicks b s (p # ps) =
     (case onClick b s p of Inl e \<Rightarrow> clicks b s ps | Inr s' \<Rightarrow> clicks b s' ps)"


subsection \<open>The reset effect of GameBoard\<close>

text \<open>\<open>useEffect(() => { setSelectedCells([]); setFoundWords(new Set()); setFoundPaths(new Set()); }, [board])\<close>\<close>

definition resetEffect :: "GameBoardState \<Rightarrow> GameBoardState" where
  "resetEffect s = s\<lparr>selectedCells := [], foundWords := {||}, foundPaths := {||}\<rparr>"

subsection \<open>GameContainer and the API service\<close>

text \<open>A value thrown by \<open>fetch\<close>, by \<open>response.json()\<close> or by \<open>generateGame\<close>: an
  \<open>Error\<close> object with its message, or some other value.\<close>

datatype thrown = Error string | NonError

text \<open>A value parsed by \<open>response.json()\<close>. A number is given by its rendering
  \<open>String(n)\<close>; an object by its members in the order of the text.\<close>

datatype json =
    JNull
  | JBool bool
  | JNumber string
  | JString string
  | JArray "json list"
  | JObject "(string \<times> json) list"

text \<open>Reading the property \<open>detail\<close> with \<open>errorData?.detail\<close>: \<open>undefined\<close> (here
  \<open>None\<close>) on \<open>null\<close>, on a value that is not an object and on an object without
  the member; of members with the same name the last one counts.\<close>

definition detailOf :: "json \<Rightarrow> json option" where
  "detailOf errorData =
     (case errorData of JObject members \<Rightarrow> map_of (rev members) ''detail'' | _ \<Rightarrow> None)"

text \<open>The truthiness that \<open>||\<close> tests: \<open>null\<close>, \<open>false\<close>, zero and the empty string are
  falsy, every array and every object is truthy.\<close>

definition truthy :: "json \<Rightarrow> bool" where
  "truthy v =
     (case v of
        JNull \<Rightarrow> False
      | JBool b \<Rightarrow> b
      | JNumber rendering \<Rightarrow> rendering \<noteq> ''0''
      | JString str \<Rightarrow> str \<noteq> []
      | JArray elems \<Rightarrow> True
      | JObject members \<Rightarrow> True)"

text \<open>\<open>String(v)\<close>, which \<open>new Error(v)\<close> stores as the message: an array renders its
  elements joined by commas, a \<open>null\<close> element as the empty string; an object renders
  as \<open>[object Object]\<close>.\<close>

fun jsString :: "json \<Rightarrow> string" where
  "jsString JNull = ''null''"
| "jsString (JBool b) = (if b then ''true'' else ''false'')"
| "jsString (JNumber rendering) = rendering"
| "jsString (JString str) = str"
| "jsString (JArray elems) =
     join '','' (map (\<lambda>e. if e = JNull then [] else jsString e) elems)"
| "jsString (JObject members) = ''[object Object]''"

text \<open>What the provider answers to the request of \<open>generateGame\<close>: \<open>fetch\<close> rejects
  (transport error); the response is not \<open>ok\<close> (status text, and \<open>errorData\<close>, the
  parsed body, \<open>null\<close> when the body does not parse); the response is \<open>ok\<close> but
  reading the body throws; or the body holds a board.\<close>

datatype FetchOutcome =
    FetchRejected thrown
  | ResponseNotOk string json
  | BodyRejected thrown
  | ResponseOk Board

text \<open>\<open>generateGame\<close>: \<open>Inl\<close> is the value it throws (its \<open>catch\<close> logs and throws
  again). \<open>new Error(errorData?.detail || `Failed to generate game: ${response.statusText}`)\<close>
  takes the text with the status when the detail is missing or falsy, and the
  rendering of the detail otherwise.\<close>

definition generateGame :: "FetchOutcome \<Rightarrow> thrown + Board" where
  "generateGame outcome =
     (case outcome of
        FetchRejected t \<Rightarrow> Inl t
      | ResponseNotOk statusText errorData \<Rightarrow>
          Inl (Error (case detailOf errorData of
                        Some detail \<Rightarrow>
                          if truthy detail then jsString detail
                          else ''Failed to generate game: '' @ statusText
                      | None \<Rightarrow> ''Failed to generate game: '' @ statusText))
      | BodyRejected t \<Rightarrow> Inl t
      | ResponseOk data \<Rightarrow> Inr data)"

text \<open>The state of \<open>GameContainer\<close>, with the state of the \<open>GameBoard\<close> it renders:
  \<open>{board && <GameBoard ... />}\<close> mounts the component when \<open>board\<close> is set, so
  \<open>gameBoard\<close> is \<open>None\<close> as long as \<open>board\<close> is.\<close>

record AppState =
  apiKey :: string
  board :: "Board option"
  error :: "string option"
  isLoading :: bool
  gameBoard :: "GameBoardState option"

text \<open>\<open>setBoard(newBoard)\<close> and the render that follows: a \<open>GameBoard\<close> not yet mounted
  starts from the initial values of its \<open>useState\<close> calls; the effect that depends on
  \<open>[board]\<close> runs after the mount and after every change of the prop. A mounted
  \<open>GameBoard\<close> keeps its state across the change of its props.\<close>

definition setBoard :: "Board \<Rightarrow> AppState \<Rightarrow> AppState" where
  "setBoard newBoard a =
     a\<lparr>board := Some newBoard,
       gameBoard := Some (resetEffect (case gameBoard a of None \<Rightarrow> initialState | Some g \<Rightarrow> g))\<rparr>"

text \<open>\<open>handleGenerateGame\<close> up to its \<open>await\<close>.\<close>

definition handleGenerateGame_request :: "AppState \<Rightarrow> AppState" where
  "handleGenerateGame_request a =
     (if apiKey a = [] then a\<lparr>error := Some ''Please enter your API key''\<rparr>
      else a\<lparr>isLoading := True, error := None\<rparr>)"

text \<open>\<open>handleGenerateGame\<close> after its \<open>await\<close>, on the state the application has when
  the provider has answered: \<open>try\<close>, \<open>catch\<close> and \<open>finally\<close>.\<close>

definition handleGenerateGame_response :: "FetchOutcome \<Rightarrow> AppState \<Rightarrow> AppState" where
  "handleGenerateGame_response outcome a =
     (case generateGame outcome of
        Inr newBoard \<Rightarrow> setBoard newBoard a
      | Inl err \<Rightarrow>
          a\<lparr>error := Some (case err of Error m \<Rightarrow> m | NonError \<Rightarrow> ''Failed to generate game'')\<rparr>)
     \<lparr>isLoading := False\<rparr>"

definition handleGenerateGame :: "FetchOutcome \<Rightarrow> AppState \<Rightarrow> AppState" where
  "handleGenerateGame outcome a =
     (if apiKey a = [] then handleGenerateGame_request a
      else handleGenerateGame_response outcome (handleGenerateGame_request a))"

text \<open>\<open>{error && (<div style={{ color: 'red', marginTop: '8px' }}>{error}</div>)}\<close>: the
  error text that \<open>GameContainer\<close> renders; \<open>null\<close> and the empty string render
  nothing.\<close>

definition renderedError :: "AppState \<Rightarrow> string option" where
  "renderedError a =
     (case error a of None \<Rightarrow> None | Some m \<Rightarrow> if m \<noteq> [] then Some m else None)"

subsection \<open>Tools for the proofs about strings\<close>

definition isDigit :: "char \<Rightarrow> bool" where
  "isDigit c = (48 \<le> (of_char c :: nat) \<and> (of_char c :: nat) \<le> 57)"

text \<open>Reading a decimal numeral back.\<close>

definition digitsValue :: "string \<Rightarrow> nat" where
  "digitsValue s = foldl (\<lambda>acc c. 10 * acc + (of_char c - 48)) 0 s"

subsection \<open>The puzzle of the end-to-end scenario\<close>

definition exampleBoard :: Board where
  "exampleBoard =
     \<lparr>grid = [[''C'', ''A'', ''T'', ''S''], [''O'', ''X'', ''X'', ''X''],
              [''X'', ''X'', ''X'', ''X''], [''X'', ''X'', ''X'', ''X'']],
      words = [''CAT''], spangram = ''CATS'', theme = ''pets'',
      placementInfo =
        \<lparr>spangramPlacement = \<lparr>word = ''CATS'', path = [(0, 0), (0, 1), (0, 2), (0, 3)]\<rparr>,
         wordPlacements = [\<lparr>word = ''CAT'', path = [(0, 0), (0, 1), (0, 2)]\<rparr>]\<rparr>\<rparr>"

text \<open>The state after \<open>CAT\<close> has been found on that puzzle.\<close>

definition catFound :: GameBoardState where
  "catFound =
     \<lparr>selectedCells = [], foundWords = {|''CAT''|},
      foundPaths = {|''0,0'', ''0,1'', ''0,2''|},
      message = \<lparr>msgText = ''You found '' @ [CHR 0x22] @ ''CAT'' @ [CHR 0x22] @ ''!'',
                 msgType = Some success\<rparr>,
      pendingTimeouts = []\<rparr>"

text \<open>The specification's words for "a placement matches": the word equals the
  candidate string case-insensitively, and the clicked path equals the stored path
  in forward or exactly reversed order.\<close>

definition matches_spec :: "string \<Rightarrow> Position list \<Rightarrow> WordPlacement \<Rightarrow> bool" where
  "matches_spec candidate cells pl =
     (toLowerCase (word pl) = toLowerCase candidate \<and>
      (cells = path pl \<or> cells = rev (path pl)))"

text \<open>A puzzle whose two placements share no cell.\<close>

definition twoRowBoard :: Board where
  "twoRowBoard =
     \<lparr>grid = [[''C'', ''A'', ''T''], [''D'', ''O'', ''G'']],
      words = [''CAT''], spangram = ''DOG'', theme = ''pets'',
      placementInfo =
        \<lparr>spangramPlacement = \<lparr>word = ''DOG'', path = [(1, 0), (1, 1), (1, 2)]\<rparr>,
         wordPlacements = [\<lparr>word = ''CAT'', path = [(0, 0), (0, 1), (0, 2)]\<rparr>]\<rparr>\<rparr>"

text \<open>The application while the example puzzle is played and \<open>CAT\<close> has been found.\<close>

definition playingApp :: AppState where
  "playingApp =
     \<lparr>apiKey = ''key'', board = Some exampleBoard, error = None, isLoading = False,
      gameBoard = Some catFound\<rparr>"

text \<open>The cells that \<open>GameBoard\<close> renders, \<open>board.map((row, rowIndex) => row.map((cell, colIndex) => ...))\<close>:
  the positions a click gesture can carry.\<close>

definition renderedCell :: "Board \<Rightarrow> Position \<Rightarrow> bool" where
  "renderedCell b p =
     (case p of (rowIndex, colIndex) \<Rightarrow>
        0 \<le> rowIndex \<and> nat rowIndex < length (grid b) \<and>
        0 \<le> colIndex \<and> nat colIndex < length (grid b ! nat rowIndex))"

section \<open>Properties\<close>

subsection \<open>The keys of cells and paths are faithful\<close>

text \<open>The component compares paths, and stores cells, through their renderings as
  strings. The lemmas of this subsection show that nothing is lost: two paths have
  the same rendering only when they are the same sequence of positions, and the
  split-reverse-join of the code renders the reversed path.\<close>

lemma of_char_digit: "n < 10 \<Longrightarrow> (of_char (char_of (48 + n)) :: nat) = 48 + n"
  by simp

lemma digits_isDigit: "\<forall>c \<in> set (digits n). isDigit c"
proof (induction n rule: digits.induct)
  case (1 n)
  show ?case
  proof (cases "n < 10")
    case True
    then show ?thesis by (subst digits.simps) (simp add: isDigit_def)
  next
    case False
    have "n mod 10 < 10" by simp
    then have "isDigit (char_of (48 + n mod 10))"
      unfolding isDigit_def by (simp only: of_char_digit) simp
    with False 1 show ?thesis by (subst digits.simps) simp
  qed
qed

lemma digits_nonempty: "digits n \<noteq> []"
  by (subst digits.simps) simp

lemma digitsValue_digits: "digitsValue (digits n) = n"
proof (induction n rule: digits.induct)
  case (1 n)
  show ?case
  proof (cases "n < 10")
    case True
    then show ?thesis by (subst digits.simps) (simp add: digitsValue_def)
  next
    case False
    have m: "n mod 10 < 10" by simp
    have "digitsValue (digits n) = 10 * digitsValue (digits (n div 10)) + n mod 10"
      using False by (subst digits.simps) (simp add: digitsValue_def of_char_digit [OF m] del: of_char_of)
    with False 1 show ?thesis by simp
  qed
qed

lemma digits_inj: "digits m = digits n \<Longrightarrow> m = n"
  by (metis digitsValue_digits)

lemma numberToString_nonempty: "numberToString i \<noteq> []"
  by (simp add: numberToString_def digits_nonempty)

lemma minus_not_digit: "\<not> isDigit CHR ''-''"
  by (simp add: isDigit_def)

lemma numberToString_chars: "c \<in> set (numberToString i) \<Longrightarrow> c = CHR ''-'' \<or> isDigit c"
  using digits_isDigit by (auto simp: numberToString_def split: if_splits)

lemma numberToString_no_comma: "CHR '','' \<notin> set (numberToString i)"
  using numberToString_chars [of "CHR '',''" i] by (auto simp: isDigit_def)

lemma numberToString_no_bar: "CHR ''|'' \<notin> set (numberToString i)"
  using numberToString_chars [of "CHR ''|''" i] by (auto simp: isDigit_def)

lemma digits_no_minus: "digits n \<noteq> CHR ''-'' # s"
proof
  assume "digits n = CHR ''-'' # s"
  then have "CHR ''-'' \<in> set (digits n)" by simp
  with digits_isDigit minus_not_digit show False by blast
qed

lemma numberToString_inj: "numberToString i = numberToString j \<Longrightarrow> i = j"
proof -
  assume eq: "numberToString i = numberToString j"
  consider "i < 0" "j < 0" | "i < 0" "\<not> j < 0" | "\<not> i < 0" "j < 0" | "\<not> i < 0" "\<not> j < 0"
    by blast
  then show ?thesis
  proof cases
    case 1
    with eq have "digits (nat (- i)) = digits (nat (- j))" by (simp add: numberToString_def)
    then have "nat (- i) = nat (- j)" by (rule digits_inj)
    with 1 show ?thesis by simp
  next
    case 2
    with eq have "digits (nat j) = CHR ''-'' # digits (nat (- i))" by (simp add: numberToString_def)
    with digits_no_minus show ?thesis by blast
  next
    case 3
    with eq have "digits (nat i) = CHR ''-'' # digits (nat (- j))" by (simp add: numberToString_def)
    with digits_no_minus show ?thesis by blast
  next
    case 4
    with eq have "digits (nat i) = digits (nat j)" by (simp add: numberToString_def)
    then have "nat i = nat j" by (rule digits_inj)
    with 4 show ?thesis by simp
  qed
qed

lemma sep_unique:
  assumes "c \<notin> set a" "c \<notin> set a'" "a @ c # b = a' @ c # b'"
  shows "a = a' \<and> b = b'"
proof -
  have "takeWhile (\<lambda>x. x \<noteq> c) (a @ c # b) = a" 
    using assms(1) by (auto simp: takeWhile_tail)
  moreover have "takeWhile (\<lambda>x. x \<noteq> c) (a' @ c # b') = a'" 
    using assms(2) by (auto simp: takeWhile_tail)
  ultimately have "a = a'" using assms(3) by simp
  with assms(3) show ?thesis by simp
qed

lemma cellKey_inj: "cellKey p = cellKey q \<Longrightarrow> p = q"
proof -
  assume eq: "cellKey p = cellKey q"
  obtain r c where p: "p = (r, c)" by (cases p)
  obtain r' c' where q: "q = (r', c')" by (cases q)
  from eq p q have "numberToString r @ CHR '','' # numberToString c
      = numberToString r' @ CHR '','' # numberToString c'"
    by (simp add: cellKey_def)
  then have "numberToString r = numberToString r' \<and> numberToString c = numberToString c'"
    by (rule sep_unique [OF numberToString_no_comma numberToString_no_comma])
  with p q show ?thesis by (simp add: numberToString_inj)
qed

lemma cellKey_nonempty: "cellKey p \<noteq> []"
  by (cases p) (simp add: cellKey_def numberToString_nonempty)

lemma cellKey_no_bar: "CHR ''|'' \<notin> set (cellKey p)"
  by (cases p) (simp add: cellKey_def numberToString_no_bar)

lemma split_no_sep: "c \<notin> set x \<Longrightarrow> split c x = [x]"
  by (induction x) auto

lemma split_nonempty: "split c s \<noteq> []"
  by (induction s) (auto split: list.splits)

lemma split_append_sep: "c \<notin> set x \<Longrightarrow> split c (x @ c # r) = x # split c r"
  by (induction x) auto

lemma split_join:
  "xs \<noteq> [] \<Longrightarrow> \<forall>x \<in> set xs. c \<notin> set x \<Longrightarrow> split c (join [c] xs) = xs"
proof (induction "[c]" xs rule: join.induct)
  case 1
  then show ?case by simp
next
  case (2 x)
  then show ?case by (simp add: split_no_sep)
next
  case (3 x y ys)
  then show ?case by (simp add: split_append_sep)
qed

lemma split_pathToString:
  "p \<noteq> [] \<Longrightarrow> split CHR ''|'' (pathToString p) = map cellKey p"
  unfolding pathToString_def by (rule split_join) (auto simp: cellKey_no_bar)

lemma pathToString_empty_iff: "pathToString p = [] \<longleftrightarrow> p = []"
proof (cases p)
  case Nil
  then show ?thesis by (simp add: pathToString_def)
next
  case (Cons a as)
  then show ?thesis by (cases as) (simp_all add: pathToString_def cellKey_nonempty)
qed

lemma pathToString_inj: "pathToString p = pathToString q \<Longrightarrow> p = q"
proof (cases "p = [] \<or> q = []")
  case True
  assume "pathToString p = pathToString q"
  with True show ?thesis by (metis pathToString_empty_iff)
next
  case False
  assume "pathToString p = pathToString q"
  then have "split CHR ''|'' (pathToString p) = split CHR ''|'' (pathToString q)" by simp
  with False have "map cellKey p = map cellKey q" by (simp add: split_pathToString)
  moreover have "inj cellKey" by (rule injI) (rule cellKey_inj)
  ultimately show ?thesis by (simp add: inj_map_eq_map)
qed

lemma reversed_pathToString:
  "join ''|'' (rev (split CHR ''|'' (pathToString p))) = pathToString (rev p)"
proof (cases "p = []")
  case True
  then show ?thesis by (simp add: pathToString_def)
next
  case False
  then show ?thesis by (simp add: split_pathToString) (simp add: pathToString_def rev_map)
qed

lemma placementMatches_iff:
  "placementMatches selWord (pathToString cells) pl \<longleftrightarrow>
     toLowerCase (word pl) = toLowerCase selWord \<and>
     (cells = path pl \<or> cells = rev (path pl))"
  unfolding placementMatches_def Let_def reversed_pathToString
  using pathToString_inj by blast

subsection \<open>checkForWord, case by case\<close>

lemma allPlacements_eq:
  "allPlacements b =
     \<lparr>word = spangram b, path = path (spangramPlacement (placementInfo b))\<rparr>
     # wordPlacements (placementInfo b)"
proof -
  have "(\<lambda>w::WordPlacement. \<lparr>word = word w, path = path w\<rparr>) = (\<lambda>w. w)"
    by (rule ext) simp
  then show ?thesis by (simp add: allPlacements_def)
qed

lemma length_allPlacements:
  "length (allPlacements b) = length (wordPlacements (placementInfo b)) + 1"
  by (simp add: allPlacements_def)

lemma foundPlacement_Some:
  "foundPlacement b cells candidate = Some pl \<Longrightarrow>
     pl \<in> set (allPlacements b) \<and> matches_spec candidate cells pl"
  unfolding foundPlacement_def matches_spec_def
  by (auto simp: find_Some_iff placementMatches_iff)

lemma foundPlacement_None:
  "foundPlacement b cells candidate = None \<longleftrightarrow>
     \<not> (\<exists>pl \<in> set (allPlacements b). matches_spec candidate cells pl)"
  unfolding foundPlacement_def matches_spec_def
  by (auto simp: find_None_iff placementMatches_iff)

lemma checkForWord_throws:
  "selectedWord (grid b) cells = Inl e \<Longrightarrow> checkForWord b s cells = Inl e"
  by (simp add: checkForWord_def)

lemma checkForWord_no_match:
  "selectedWord (grid b) cells = Inr candidate \<Longrightarrow> foundPlacement b cells candidate = None \<Longrightarrow>
   cells \<noteq> [] \<Longrightarrow>
   checkForWord b s cells = Inr (s\<lparr>message := tryAgainMessage, selectedCells := []\<rparr>)"
  by (simp add: checkForWord_def)


lemma checkForWord_found_new:
  "selectedWord (grid b) cells = Inr candidate \<Longrightarrow> foundPlacement b cells candidate = Some pl \<Longrightarrow>
   word pl |\<notin>| foundWords s \<Longrightarrow>
   checkForWord b s cells = Inr ((markFound b s cells (word pl))\<lparr>selectedCells := []\<rparr>)"
  by (simp add: checkForWord_def)

lemma checkForWord_empty_no_match:
  "foundPlacement b [] [] = None \<Longrightarrow> checkForWord b s [] = Inr (s\<lparr>selectedCells := []\<rparr>)"
  by (simp add: checkForWord_def)

text \<open>
  C1. \<open>matches_spec\<close> is the specification's condition on a placement: its word is the
  candidate string (the grid letters along the clicked path, in click order) up to
  case, and the clicked path is the stored path, position by position, forward or
  exactly reversed. For a path whose letters can be read, validation finds a
  placement iff some placement of the puzzle (spangram or theme word) satisfies that
  condition, and the placement found satisfies it; a word found for the first time is
  marked found; and a non-empty path that no placement satisfies, whatever its
  letters spell, is rejected with the retry notice and nothing else changed.
\<close>

theorem C1_validation_accepts_iff:
  assumes "selectedWord (grid b) cells = Inr candidate"
  shows "((\<exists>pl. foundPlacement b cells candidate = Some pl) \<longleftrightarrow>
            (\<exists>pl \<in> set (allPlacements b). matches_spec candidate cells pl)) \<and>
         (\<forall>pl. foundPlacement b cells candidate = Some pl \<longrightarrow>
            pl \<in> set (allPlacements b) \<and> matches_spec candidate cells pl \<and>
            (word pl |\<notin>| foundWords s \<longrightarrow>
               checkForWord b s cells = Inr ((markFound b s cells (word pl))\<lparr>selectedCells := []\<rparr>))) \<and>
         (cells \<noteq> [] \<and> \<not> (\<exists>pl \<in> set (allPlacements b). matches_spec candidate cells pl) \<longrightarrow>
            checkForWord b s cells = Inr (s\<lparr>message := tryAgainMessage, selectedCells := []\<rparr>))"
proof (intro conjI allI impI)
  show "(\<exists>pl. foundPlacement b cells candidate = Some pl) \<longleftrightarrow>
        (\<exists>pl \<in> set (allPlacements b). matches_spec candidate cells pl)"
    using foundPlacement_None [of b cells candidate] by auto
next
  fix pl assume "foundPlacement b cells candidate = Some pl"
  then show "pl \<in> set (allPlacements b)" "matches_spec candidate cells pl"
    by (simp_all add: foundPlacement_Some)
next
  fix pl assume "foundPlacement b cells candidate = Some pl" "word pl |\<notin>| foundWords s"
  with assms show "checkForWord b s cells = Inr ((markFound b s cells (word pl))\<lparr>selectedCells := []\<rparr>)"
    by (rule checkForWord_found_new)
next
  assume "cells \<noteq> [] \<and> \<not> (\<exists>pl \<in> set (allPlacements b). matches_spec candidate cells pl)"
  then have "foundPlacement b cells candidate = None" "cells \<noteq> []"
    by (simp_all add: foundPlacement_None)
  with assms show "checkForWord b s cells = Inr (s\<lparr>message := tryAgainMessage, selectedCells := []\<rparr>)"
    by (simp add: checkForWord_no_match)
qed

theorem C1_validation_accepts_iff_witness:
  "selectedWord (grid exampleBoard) [(0, 0), (0, 1), (0, 2)] = Inr ''CAT'' \<and>
   (\<exists>pl \<in> set (allPlacements exampleBoard). matches_spec ''CAT'' [(0, 0), (0, 1), (0, 2)] pl) \<and>
   checkForWord exampleBoard initialState [(0, 0), (0, 1), (0, 2)] = Inr catFound \<and>
   checkForWord exampleBoard initialState [(0, 0), (0, 2), (0, 1)]
     = Inr (initialState\<lparr>message := tryAgainMessage, selectedCells := []\<rparr>)"
proof -
  have h: "selectedWord (grid exampleBoard) [(0, 0), (0, 1), (0, 2)] = Inr ''CAT''"
    by code_simp
  have f: "foundPlacement exampleBoard [(0, 0), (0, 1), (0, 2)] ''CAT''
             = Some \<lparr>word = ''CAT'', path = [(0, 0), (0, 1), (0, 2)]\<rparr>"
    by code_simp
  have m: "(markFound exampleBoard initialState [(0, 0), (0, 1), (0, 2)] ''CAT'')\<lparr>selectedCells := []\<rparr>
             = catFound"
    by code_simp
  have n: "''CAT'' |\<notin>| foundWords initialState" by code_simp
  have h2: "selectedWord (grid exampleBoard) [(0, 0), (0, 2), (0, 1)] = Inr ''CTA''"
    by code_simp
  have g: "\<not> (\<exists>pl \<in> set (allPlacements exampleBoard). matches_spec ''CTA'' [(0, 0), (0, 2), (0, 1)] pl)"
    by code_simp
  from C1_validation_accepts_iff [OF h, of initialState] f m n
  have "(\<exists>pl \<in> set (allPlacements exampleBoard). matches_spec ''CAT'' [(0, 0), (0, 1), (0, 2)] pl)"
       "checkForWord exampleBoard initialState [(0, 0), (0, 1), (0, 2)] = Inr catFound"
    by auto
  moreover from C1_validation_accepts_iff [OF h2, of initialState] g
  have "checkForWord exampleBoard initialState [(0, 0), (0, 2), (0, 1)]
     = Inr (initialState\<lparr>message := tryAgainMessage, selectedCells := []\<rparr>)"
    by simp
  ultimately show ?thesis using h by simp
qed

subsection \<open>Clicks on cells\<close>

lemma onClick_unlocked:
  "cellKey p |\<notin>| foundPaths s \<Longrightarrow> onClick b s p = handleCellClick b s p"
  by (simp add: onClick_def)

text \<open>
  C2. For every position whose key is in \<open>foundPaths\<close> (a locked cell), the click
  handler of the cell leaves the whole state as it is: the selected path, the found
  words, the locked cells and the message, whether or not a path is being selected.
\<close>

theorem C2_locked_click_is_noop:
  "cellKey p |\<in>| foundPaths s \<Longrightarrow> onClick b s p = Inr s"
  by (simp add: onClick_def)

theorem C2_locked_click_is_noop_witness:
  "cellKey (0, 1) |\<in>| foundPaths (catFound\<lparr>selectedCells := [(1, 0)]\<rparr>) \<and>
   onClick exampleBoard (catFound\<lparr>selectedCells := [(1, 0)]\<rparr>) (0, 1)
     = Inr (catFound\<lparr>selectedCells := [(1, 0)]\<rparr>) \<and>
   cellKey (0, 1) |\<in>| foundPaths catFound \<and>
   onClick exampleBoard catFound (0, 1) = Inr catFound"
proof -
  have h: "cellKey (0, 1) |\<in>| foundPaths (catFound\<lparr>selectedCells := [(1, 0)]\<rparr>)"
    by code_simp
  have h': "cellKey (0, 1) |\<in>| foundPaths catFound"
    by code_simp
  show ?thesis
    using h h' C2_locked_click_is_noop [OF h, of exampleBoard]
      C2_locked_click_is_noop [OF h', of exampleBoard]
    by simp
qed

text \<open>
  C3, as stated, fails for a locked cell: on the example puzzle, after \<open>CAT\<close> is found
  and the cell (1,0) is selected, a click on the locked cell (0,1), which is not the
  last element, leaves the path \<open>[(1,0)]\<close> selected.
\<close>

theorem C3_locked_click_keeps_path:
  "clicks exampleBoard initialState [(0, 0), (0, 1), (0, 2), (0, 2), (1, 0)]
     = catFound\<lparr>selectedCells := [(1, 0)]\<rparr> \<and>
   (0, 1) \<noteq> last (selectedCells (catFound\<lparr>selectedCells := [(1, 0)]\<rparr>)) \<and>
   cellKey (0, 1) |\<in>| foundPaths (catFound\<lparr>selectedCells := [(1, 0)]\<rparr>) \<and>
   onClick exampleBoard (catFound\<lparr>selectedCells := [(1, 0)]\<rparr>) (0, 1)
     = Inr (catFound\<lparr>selectedCells := [(1, 0)]\<rparr>) \<and>
   selectedCells (catFound\<lparr>selectedCells := [(1, 0)]\<rparr>) \<noteq> []"
  by code_simp

text \<open>
  C3, amended. When the path is not empty and the clicked cell is unlocked, differs
  from the last element and is not adjacent to it, the click empties the path and
  changes nothing else: found words, locked cells, message and pending timeouts stay,
  and no validation runs. A locked cell does not reach this branch through the click
  handler of the cell; \<open>handleCellClick\<close> itself, called with a cell that differs from
  the last element and is not adjacent or is locked, empties the path the same way.
\<close>

theorem C3_abort_clears_path:
  assumes "selectedCells s \<noteq> []" and "p \<noteq> last (selectedCells s)"
  shows "(\<not> isAdjacent (last (selectedCells s)) p \<and> cellKey p |\<notin>| foundPaths s \<longrightarrow>
            onClick b s p = Inr (s\<lparr>selectedCells := []\<rparr>)) \<and>
         (\<not> isAdjacent (last (selectedCells s)) p \<or> cellKey p |\<in>| foundPaths s \<longrightarrow>
            handleCellClick b s p = Inr (s\<lparr>selectedCells := []\<rparr>))"
  using assms by (auto simp: onClick_def handleCellClick_def)

theorem C3_abort_clears_path_witness:
  "selectedCells (initialState\<lparr>selectedCells := [(0, 0)]\<rparr>) \<noteq> [] \<and>
   (2, 2) \<noteq> last (selectedCells (initialState\<lparr>selectedCells := [(0, 0)]\<rparr>)) \<and>
   \<not> isAdjacent (last (selectedCells (initialState\<lparr>selectedCells := [(0, 0)]\<rparr>))) (2, 2) \<and>
   cellKey (2, 2) |\<notin>| foundPaths (initialState\<lparr>selectedCells := [(0, 0)]\<rparr>) \<and>
   onClick exampleBoard (initialState\<lparr>selectedCells := [(0, 0)]\<rparr>) (2, 2) = Inr initialState"
proof -
  let ?s = "initialState\<lparr>selectedCells := [(0, 0)]\<rparr>"
  have a: "selectedCells ?s \<noteq> []" by code_simp
  have b: "(2, 2) \<noteq> last (selectedCells ?s)" by code_simp
  have c: "\<not> isAdjacent (last (selectedCells ?s)) (2, 2)" by code_simp
  have d: "cellKey (2, 2) |\<notin>| foundPaths ?s" by code_simp
  have e: "?s\<lparr>selectedCells := []\<rparr> = initialState" by code_simp
  show ?thesis
    using a b c d e C3_abort_clears_path [OF a b, of exampleBoard] by simp
qed

text \<open>
  C8, as stated, fails for a locked cell: on the example puzzle, after \<open>CAT\<close> is found
  the path is empty, and a click on the locked cell (0,0) leaves it empty.
\<close>

theorem C8_locked_first_click_selects_nothing:
  "clicks exampleBoard initialState [(0, 0), (0, 1), (0, 2), (0, 2)] = catFound \<and>
   selectedCells catFound = [] \<and>
   onClick exampleBoard catFound (0, 0) = Inr catFound \<and>
   selectedCells catFound \<noteq> [(0, 0)]"
  by code_simp

text \<open>
  C8, amended. For every unlocked position \<open>p\<close>, a click on \<open>p\<close> while the path is
  empty selects exactly \<open>[p]\<close> and changes nothing else.
\<close>

theorem C8_first_click_selects_cell:
  "selectedCells s = [] \<Longrightarrow> cellKey p |\<notin>| foundPaths s \<Longrightarrow>
   onClick b s p = Inr (s\<lparr>selectedCells := [p]\<rparr>)"
  by (simp add: onClick_def handleCellClick_def)

theorem C8_first_click_selects_cell_witness:
  "selectedCells catFound = [] \<and> cellKey (1, 0) |\<notin>| foundPaths catFound \<and>
   onClick exampleBoard catFound (1, 0) = Inr (catFound\<lparr>selectedCells := [(1, 0)]\<rparr>)"
proof -
  have a: "selectedCells catFound = []" by code_simp
  have b: "cellKey (1, 0) |\<notin>| foundPaths catFound" by code_simp
  show ?thesis using a b C8_first_click_selects_cell [OF a b, of exampleBoard] by simp
qed

text \<open>
  C10. A click on an unlocked cell that differs from the last element of a non-empty
  path and is adjacent to it appends the cell, whether or not the cell is already in
  the path; when it is, the path holds the same position at two indices.
\<close>

theorem C10_path_may_repeat_a_cell:
  assumes "selectedCells s \<noteq> []" and "p \<noteq> last (selectedCells s)"
      and "isAdjacent (last (selectedCells s)) p" and "cellKey p |\<notin>| foundPaths s"
  shows "onClick b s p = Inr (s\<lparr>selectedCells := selectedCells s @ [p]\<rparr>) \<and>
         (p \<in> set (selectedCells s) \<longrightarrow> \<not> distinct (selectedCells s @ [p]))"
  using assms by (simp add: onClick_def handleCellClick_def)

theorem C10_path_may_repeat_a_cell_witness:
  "clicks exampleBoard initialState [(0, 0), (0, 1)] = initialState\<lparr>selectedCells := [(0, 0), (0, 1)]\<rparr> \<and>
   onClick exampleBoard (initialState\<lparr>selectedCells := [(0, 0), (0, 1)]\<rparr>) (0, 0)
     = Inr (initialState\<lparr>selectedCells := [(0, 0), (0, 1), (0, 0)]\<rparr>) \<and>
   \<not> distinct [(0, 0), (0, 1), (0, 0) :: Position]"
proof -
  let ?s = "initialState\<lparr>selectedCells := [(0, 0), (0, 1)]\<rparr>"
  have r: "clicks exampleBoard initialState [(0, 0), (0, 1)] = ?s" by code_simp
  have a: "selectedCells ?s \<noteq> []" by code_simp
  have b: "(0, 0) \<noteq> last (selectedCells ?s)" by code_simp
  have c: "isAdjacent (last (selectedCells ?s)) (0, 0)" by code_simp
  have d: "cellKey (0, 0) |\<notin>| foundPaths ?s" by code_simp
  have e: "(0, 0) \<in> set (selectedCells ?s)" by code_simp
  have f: "?s\<lparr>selectedCells := selectedCells ?s @ [(0, 0)]\<rparr>
             = initialState\<lparr>selectedCells := [(0, 0), (0, 1), (0, 0)]\<rparr>" by code_simp
  have g: "selectedCells ?s @ [(0, 0)] = [(0, 0), (0, 1), (0, 0)]" by code_simp
  show ?thesis
    using r e f g C10_path_may_repeat_a_cell [OF a b c d, of exampleBoard] by simp
qed



subsection \<open>Progress: found words and locked cells\<close>

lemma addCells_eq: "addCells fp cells = fp |\<union>| fset_of_list (map cellKey cells)"
  unfolding addCells_def by (induction cells arbitrary: fp) auto

lemma markFound_foundWords: "foundWords (markFound b s cells w) = finsert w (foundWords s)"
  by (simp add: markFound_def Let_def)

lemma markFound_foundPaths:
  "foundPaths (markFound b s cells w) = foundPaths s |\<union>| fset_of_list (map cellKey cells)"
  by (simp add: markFound_def Let_def addCells_eq)

lemma markFound_message: "message (markFound b s cells w) = successMessage b w"
  by (simp add: markFound_def Let_def)

lemma markFound_selectedCells: "selectedCells (markFound b s cells w) = selectedCells s"
  by (simp add: markFound_def Let_def)


lemma checkForWord_cases:
  assumes "checkForWord b s cells = Inr s'"
  shows "s' = s\<lparr>selectedCells := []\<rparr> \<or>
         s' = s\<lparr>message := tryAgainMessage, selectedCells := []\<rparr> \<or>
         (\<exists>pl \<in> set (allPlacements b). word pl |\<notin>| foundWords s \<and>
            s' = (markFound b s cells (word pl))\<lparr>selectedCells := []\<rparr>)"
proof (cases "selectedWord (grid b) cells")
  case (Inl e)
  with assms show ?thesis by (simp add: checkForWord_def)
next
  case (Inr candidate)
  show ?thesis
  proof (cases "foundPlacement b cells candidate")
    case None
    with Inr assms show ?thesis by (auto simp: checkForWord_def split: if_splits)
  next
    case (Some pl)
    then have "pl \<in> set (allPlacements b)" by (simp add: foundPlacement_Some)
    with Some Inr assms show ?thesis by (auto simp: checkForWord_def split: if_splits)
  qed
qed

lemma onClick_cases:
  assumes "onClick b s p = Inr s'"
  shows "s' = s \<or> s' = s\<lparr>selectedCells := []\<rparr> \<or>
         s' = s\<lparr>selectedCells := selectedCells s @ [p]\<rparr> \<or>
         checkForWord b s (selectedCells s) = Inr s'"
  using assms by (auto simp: onClick_def handleCellClick_def split: if_splits)

lemma checkForWord_grows:
  assumes "checkForWord b s cells = Inr s'"
  shows "foundWords s |\<subseteq>| foundWords s' \<and> foundPaths s |\<subseteq>| foundPaths s'"
  using checkForWord_cases [OF assms]
  by (auto simp: markFound_foundWords markFound_foundPaths)

lemma onClick_grows:
  assumes "onClick b s p = Inr s'"
  shows "foundWords s |\<subseteq>| foundWords s' \<and> foundPaths s |\<subseteq>| foundPaths s'"
  using onClick_cases [OF assms] checkForWord_grows [of b s "selectedCells s" s']
  by auto

lemma checkForWord_placed:
  assumes "checkForWord b s cells = Inr s'"
      and "foundWords s |\<subseteq>| fset_of_list (map word (allPlacements b))"
  shows "foundWords s' |\<subseteq>| fset_of_list (map word (allPlacements b))"
proof -
  from checkForWord_cases [OF assms(1)]
  consider "foundWords s' = foundWords s"
    | pl where "pl \<in> set (allPlacements b)" "foundWords s' = finsert (word pl) (foundWords s)"
    by (auto simp: markFound_foundWords)
  then show ?thesis
  proof cases
    case 1
    with assms(2) show ?thesis by simp
  next
    case 2
    then have "word pl |\<in>| fset_of_list (map word (allPlacements b))"
      by (simp add: fset_of_list_elem)
    with 2 assms(2) show ?thesis by simp
  qed
qed

lemma onClick_placed:
  assumes "onClick b s p = Inr s'"
      and "foundWords s |\<subseteq>| fset_of_list (map word (allPlacements b))"
  shows "foundWords s' |\<subseteq>| fset_of_list (map word (allPlacements b))"
  using onClick_cases [OF assms(1)] assms(2) checkForWord_placed [of b s "selectedCells s" s']
  by auto

lemma clicks_append: "clicks b s (ps @ qs) = clicks b (clicks b s ps) qs"
  by (induction ps arbitrary: s) (auto split: sum.splits)

lemma clicks_grows:
  "foundWords s |\<subseteq>| foundWords (clicks b s ps) \<and> foundPaths s |\<subseteq>| foundPaths (clicks b s ps)"
proof (induction ps arbitrary: s)
  case Nil
  show ?case by simp
next
  case (Cons p ps)
  show ?case
  proof (cases "onClick b s p")
    case (Inl e)
    with Cons.IH [of s] show ?thesis by simp
  next
    case (Inr s1)
    from onClick_grows [OF Inr] Cons.IH [of s1] Inr show ?thesis
      by (auto dest: fsubsetD)
  qed
qed

lemma clicks_placed:
  "foundWords s |\<subseteq>| fset_of_list (map word (allPlacements b)) \<Longrightarrow>
   foundWords (clicks b s ps) |\<subseteq>| fset_of_list (map word (allPlacements b))"
proof (induction ps arbitrary: s)
  case Nil
  then show ?case by simp
next
  case (Cons p ps)
  show ?case
  proof (cases "onClick b s p")
    case (Inl e)
    with Cons show ?thesis by simp
  next
    case (Inr s1)
    from Inr Cons.prems have "foundWords s1 |\<subseteq>| fset_of_list (map word (allPlacements b))"
      by (rule onClick_placed)
    then have "foundWords (clicks b s1 ps) |\<subseteq>| fset_of_list (map word (allPlacements b))"
      by (rule Cons.IH)
    with Inr show ?thesis by (simp del: fset_of_list_map)
  qed
qed

lemma fcard_fset_of_list_le: "fcard (fset_of_list xs) \<le> length xs"
  by (simp add: fcard.rep_eq fset_of_list.rep_eq card_length)

lemma found_count_le_placements:
  "fcard (foundWords (clicks b initialState ps)) \<le> length (wordPlacements (placementInfo b)) + 1"
proof -
  have "foundWords initialState |\<subseteq>| fset_of_list (map word (allPlacements b))"
    by (simp add: initialState_def)
  then have "foundWords (clicks b initialState ps) |\<subseteq>| fset_of_list (map word (allPlacements b))"
    by (rule clicks_placed)
  then have "fcard (foundWords (clicks b initialState ps))
               \<le> fcard (fset_of_list (map word (allPlacements b)))"
    by (rule fcard_mono)
  also have "\<dots> \<le> length (map word (allPlacements b))"
    by (rule fcard_fset_of_list_le)
  finally show ?thesis by (simp add: length_allPlacements)
qed

text \<open>
  C5. From any state, no click removes an element of \<open>foundWords\<close> or of
  \<open>foundPaths\<close>: both sets after a run of clicks are contained in the sets after any
  longer run, so the number of found words never decreases. On a puzzle whose
  placement table has one entry for each theme word, the number of found words of a
  game started from the initial state is at most \<open>words.length + 1\<close>.
\<close>

theorem C5_found_sets_only_grow:
  assumes "length (wordPlacements (placementInfo b)) = length (words b)"
  shows "(\<forall>p s'. onClick b s p = Inr s' \<longrightarrow>
            foundWords s |\<subseteq>| foundWords s' \<and> foundPaths s |\<subseteq>| foundPaths s') \<and>
         foundWords (clicks b s ps) |\<subseteq>| foundWords (clicks b s (ps @ qs)) \<and>
         foundPaths (clicks b s ps) |\<subseteq>| foundPaths (clicks b s (ps @ qs)) \<and>
         fcard (foundWords (clicks b s ps)) \<le> fcard (foundWords (clicks b s (ps @ qs))) \<and>
         fcard (foundWords (clicks b initialState ps)) \<le> length (words b) + 1"
proof (intro conjI allI impI)
  fix p s' assume "onClick b s p = Inr s'"
  then show "foundWords s |\<subseteq>| foundWords s'" "foundPaths s |\<subseteq>| foundPaths s'"
    by (simp_all add: onClick_grows)
next
  show w: "foundWords (clicks b s ps) |\<subseteq>| foundWords (clicks b s (ps @ qs))"
    by (simp add: clicks_append clicks_grows)
  show "foundPaths (clicks b s ps) |\<subseteq>| foundPaths (clicks b s (ps @ qs))"
    by (simp add: clicks_append clicks_grows)
  from w show "fcard (foundWords (clicks b s ps)) \<le> fcard (foundWords (clicks b s (ps @ qs)))"
    by (rule fcard_mono)
  from found_count_le_placements [of b ps] assms
  show "fcard (foundWords (clicks b initialState ps)) \<le> length (words b) + 1"
    by simp
qed

theorem C5_found_sets_only_grow_witness:
  "length (wordPlacements (placementInfo twoRowBoard)) = length (words twoRowBoard) \<and>
   foundWords (clicks twoRowBoard initialState [(0, 0), (0, 1), (0, 2), (0, 2)]) = {|''CAT''|} \<and>
   foundWords (clicks twoRowBoard initialState
      ([(0, 0), (0, 1), (0, 2), (0, 2)] @ [(1, 0), (1, 1), (1, 2), (1, 2)])) = {|''CAT'', ''DOG''|} \<and>
   {|''CAT''|} |\<subseteq>| {|''CAT'', ''DOG''|} \<and>
   fcard (foundWords (clicks twoRowBoard initialState
      ([(0, 0), (0, 1), (0, 2), (0, 2)] @ [(1, 0), (1, 1), (1, 2), (1, 2)]))) \<le> length (words twoRowBoard) + 1"
proof -
  let ?ps = "[(0, 0), (0, 1), (0, 2), (0, 2)] :: Position list"
  let ?qs = "[(1, 0), (1, 1), (1, 2), (1, 2)] :: Position list"
  have h: "length (wordPlacements (placementInfo twoRowBoard)) = length (words twoRowBoard)"
    by code_simp
  have a: "foundWords (clicks twoRowBoard initialState ?ps) = {|''CAT''|}" by code_simp
  have b: "foundWords (clicks twoRowBoard initialState (?ps @ ?qs)) = {|''CAT'', ''DOG''|}"
    by code_simp
  from C5_found_sets_only_grow [OF h, of initialState ?ps ?qs]
  have c: "foundWords (clicks twoRowBoard initialState ?ps)
             |\<subseteq>| foundWords (clicks twoRowBoard initialState (?ps @ ?qs))"
    by blast
  from C5_found_sets_only_grow [OF h, of initialState "?ps @ ?qs" "[]"]
  have d: "fcard (foundWords (clicks twoRowBoard initialState (?ps @ ?qs)))
             \<le> length (words twoRowBoard) + 1"
    by blast
  from c have c': "{|''CAT''|} |\<subseteq>| {|''CAT'', ''DOG''|}" unfolding a b .
  from h a b c' d show ?thesis by blast
qed

subsection \<open>The completion notice\<close>






subsection \<open>Loading a puzzle\<close>

lemma resetEffect_fields:
  "selectedCells (resetEffect s) = [] \<and> foundWords (resetEffect s) = {||} \<and>
   foundPaths (resetEffect s) = {||} \<and> message (resetEffect s) = message s \<and>
   pendingTimeouts (resetEffect s) = pendingTimeouts s"
  by (simp add: resetEffect_def)

lemma generateGame_fails_iff:
  "(\<exists>err. generateGame outcome = Inl err) \<longleftrightarrow> (\<forall>data. outcome \<noteq> ResponseOk data)"
  by (cases outcome) (simp_all add: generateGame_def)

lemma failed_request_keeps_board_and_game:
  assumes "generateGame outcome = Inl err"
  shows "handleGenerateGame_response outcome a
           = a\<lparr>error := Some (case err of Error m \<Rightarrow> m | NonError \<Rightarrow> ''Failed to generate game''),
               isLoading := False\<rparr> \<and>
         board (handleGenerateGame_request a) = board a \<and>
         gameBoard (handleGenerateGame_request a) = gameBoard a \<and>
         board (handleGenerateGame outcome a) = board a \<and>
         gameBoard (handleGenerateGame outcome a) = gameBoard a \<and>
         isLoading (handleGenerateGame outcome a) = (apiKey a = [] \<and> isLoading a) \<and>
         error (handleGenerateGame outcome a) \<noteq> None"
proof -
  have r: "handleGenerateGame_response outcome a
           = a\<lparr>error := Some (case err of Error m \<Rightarrow> m | NonError \<Rightarrow> ''Failed to generate game''),
               isLoading := False\<rparr>" for a
    using assms by (simp add: handleGenerateGame_response_def)
  have q: "board (handleGenerateGame_request a) = board a \<and>
           gameBoard (handleGenerateGame_request a) = gameBoard a"
    by (simp add: handleGenerateGame_request_def)
  have l: "isLoading (handleGenerateGame outcome a) = (apiKey a = [] \<and> isLoading a)"
    by (simp add: handleGenerateGame_def r handleGenerateGame_request_def)
  have e: "error (handleGenerateGame outcome a) \<noteq> None"
    by (simp add: handleGenerateGame_def r handleGenerateGame_request_def)
  from r [of a] q l e show ?thesis
    by (simp add: handleGenerateGame_def r)
qed

lemma thrown_message_rendered:
  assumes "generateGame outcome = Inl (Error m)" and "m \<noteq> []" and "apiKey a \<noteq> []"
  shows "renderedError (handleGenerateGame outcome a) = Some m"
  using assms
  by (simp add: renderedError_def handleGenerateGame_def handleGenerateGame_response_def)

lemma fallback_message_rendered:
  assumes "detailOf errorData = None \<or> (\<exists>d. detailOf errorData = Some d \<and> \<not> truthy d)"
      and "apiKey a \<noteq> []"
  shows "renderedError (handleGenerateGame (ResponseNotOk statusText errorData) a)
           = Some (''Failed to generate game: '' @ statusText)"
proof -
  from assms(1)
  have g: "generateGame (ResponseNotOk statusText errorData)
          = Inl (Error (''Failed to generate game: '' @ statusText))"
    by (auto simp: generateGame_def)
  have n: "''Failed to generate game: '' @ statusText \<noteq> []" by simp
  from g n assms(2) show ?thesis by (rule thrown_message_rendered)
qed

lemma string_detail_rendered:
  assumes "detailOf errorData = Some (JString d)" and "apiKey a \<noteq> []"
  shows "\<exists>m. renderedError (handleGenerateGame (ResponseNotOk statusText errorData) a) = Some m"
proof (cases "d = []")
  case True
  with assms(1) have "\<exists>x. detailOf errorData = Some x \<and> \<not> truthy x"
    by (simp add: truthy_def)
  with assms(2) show ?thesis by (simp add: fallback_message_rendered)
next
  case False
  with assms(1) have "generateGame (ResponseNotOk statusText errorData) = Inl (Error d)"
    by (simp add: generateGame_def truthy_def)
  from thrown_message_rendered [OF this False assms(2)] show ?thesis by blast
qed

text \<open>
  C9 on the code. A failed request leaves the board and the state of the mounted
  game as they were, for every answer of the provider (the lemmas above). The
  message is another matter: \<open>generateGame\<close> falls back to its own text only when the
  \<open>detail\<close> of the error body is missing or falsy. When the request is rejected with
  the body \<open>{"detail": []}\<close>, the detail is truthy and renders as the empty string:
  the \<open>Error\<close> thrown has an empty message, \<open>setError\<close> stores it, and
  \<open>GameContainer\<close> renders no error text, while the old game stays on the screen.
\<close>

theorem C9_truthy_empty_detail_renders_no_message:
  "generateGame (ResponseNotOk ''Bad Request'' (JObject [(''detail'', JArray [])]))
     = Inl (Error []) \<and>
   handleGenerateGame (ResponseNotOk ''Bad Request'' (JObject [(''detail'', JArray [])])) playingApp
     = playingApp\<lparr>error := Some []\<rparr> \<and>
   renderedError
     (handleGenerateGame (ResponseNotOk ''Bad Request'' (JObject [(''detail'', JArray [])])) playingApp)
     = None \<and>
   board (handleGenerateGame (ResponseNotOk ''Bad Request'' (JObject [(''detail'', JArray [])])) playingApp)
     = Some exampleBoard \<and>
   gameBoard (handleGenerateGame (ResponseNotOk ''Bad Request'' (JObject [(''detail'', JArray [])])) playingApp)
     = Some catFound"
  by code_simp

text \<open>The same request rejected with a detail that is text, or with no detail, shows a
  message.\<close>

lemma rejected_request_with_text_detail_shows_message:
  "renderedError
     (handleGenerateGame
        (ResponseNotOk ''Unauthorized'' (JObject [(''detail'', JString ''Invalid API key'')]))
        playingApp)
     = Some ''Invalid API key'' \<and>
   renderedError (handleGenerateGame (ResponseNotOk ''Unauthorized'' JNull) playingApp)
     = Some ''Failed to generate game: Unauthorized''"
  by code_simp

text \<open>
  C6 on the code. When a new board replaces the one being played, the reset effect
  empties the selected path, the found words and the locked cells, and leaves the
  message: on the example, the success notice of the old game is still the message
  of the new game, whose state is otherwise the initial one.
\<close>

theorem C6_new_board_keeps_old_message:
  "gameBoard (handleGenerateGame (ResponseOk twoRowBoard) playingApp)
     = Some (initialState\<lparr>message := message catFound\<rparr>) \<and>
   board (handleGenerateGame (ResponseOk twoRowBoard) playingApp) = Some twoRowBoard \<and>
   message catFound = \<lparr>msgText = ''You found '' @ [CHR 0x22] @ ''CAT'' @ [CHR 0x22] @ ''!'',
                        msgType = Some success\<rparr> \<and>
   message catFound \<noteq> message initialState"
  by code_simp

subsection \<open>Clicks on rendered cells never throw\<close>

lemma cellLetter_rendered: "renderedCell b p \<Longrightarrow> \<exists>w. cellLetter (grid b) p = Inr w"
  by (cases p) (auto simp: renderedCell_def cellLetter_def index_def)

lemma selectedWord_rendered:
  "\<forall>p \<in> set cells. renderedCell b p \<Longrightarrow> \<exists>w. selectedWord (grid b) cells = Inr w"
proof (induction cells)
  case Nil
  show ?case by simp
next
  case (Cons p ps)
  then obtain w t where "cellLetter (grid b) p = Inr w" "selectedWord (grid b) ps = Inr t"
    using cellLetter_rendered [of b p] by auto
  then show ?case by simp
qed

lemma checkForWord_rendered:
  assumes "\<forall>p \<in> set cells. renderedCell b p"
  shows "\<exists>s'. checkForWord b s cells = Inr s' \<and> selectedCells s' = []"
proof -
  from selectedWord_rendered [OF assms] obtain w where "selectedWord (grid b) cells = Inr w" ..
  then show ?thesis by (simp add: checkForWord_def Let_def)
qed

lemma onClick_rendered:
  assumes "\<forall>q \<in> set (selectedCells s). renderedCell b q" and "renderedCell b p"
  shows "\<exists>s'. onClick b s p = Inr s' \<and> (\<forall>q \<in> set (selectedCells s'). renderedCell b q)"
proof (cases "cellKey p |\<notin>| foundPaths s \<and> selectedCells s \<noteq> [] \<and> last (selectedCells s) = p")
  case True
  with checkForWord_rendered [OF assms(1), of s] show ?thesis
    by (auto simp: onClick_def handleCellClick_def)
next
  case False
  with assms show ?thesis
    by (auto simp: onClick_def handleCellClick_def)
qed

lemma clicks_rendered_invariant:
  assumes "\<forall>q \<in> set (selectedCells s). renderedCell b q" and "\<forall>p \<in> set ps. renderedCell b p"
  shows "\<forall>q \<in> set (selectedCells (clicks b s ps)). renderedCell b q"
  using assms
proof (induction ps arbitrary: s)
  case Nil
  then show ?case by simp
next
  case (Cons p ps)
  then obtain s1 where "onClick b s p = Inr s1" "\<forall>q \<in> set (selectedCells s1). renderedCell b q"
    using onClick_rendered [of s b p] by auto
  with Cons show ?case by simp
qed

lemma rendered_clicks_never_throw:
  assumes "\<forall>q \<in> set ps. renderedCell b q" and "renderedCell b p"
  shows "\<exists>s'. onClick b (clicks b initialState ps) p = Inr s'"
proof -
  have "\<forall>q \<in> set (selectedCells initialState). renderedCell b q"
    by (simp add: initialState_def)
  then have "\<forall>q \<in> set (selectedCells (clicks b initialState ps)). renderedCell b q"
    using assms(1) by (rule clicks_rendered_invariant)
  from onClick_rendered [OF this assms(2)] show ?thesis by blast
qed

text \<open>The candidate string is read in click order. On the example puzzle the path of
  \<open>CAT\<close> clicked from its far end spells \<open>TAC\<close>, so validation rejects it although
  the clicked path is the stored path reversed.\<close>

lemma reversed_trace_reads_letters_in_click_order:
  "selectedWord (grid exampleBoard) [(0, 2), (0, 1), (0, 0)] = Inr ''TAC'' \<and>
   clicks exampleBoard initialState [(0, 2), (0, 1), (0, 0), (0, 0)]
     = initialState\<lparr>message := tryAgainMessage\<rparr>"
  by code_simp

end
